theory Spec2Isabelle
  imports Complex_Main
begin

section \<open>Embedding of \<^verbatim>\<open>festim_model/compare_1d_2d.py\<close>\<close>

text \<open>
  The module fits an analytical permeation model to a flux transient and reports the
  relative error of the fitted transport coefficients against literature correlations.

  Numbers are modelled as \<^typ>\<open>real\<close>: the floating-point rounding of numpy is not
  represented, and neither are its non-finite values (a numpy division by zero yields
  \<open>inf\<close> or \<open>nan\<close> without raising, whereas \<open>x / 0 = 0\<close> on \<^typ>\<open>real\<close>).
  Units (the \<open>pint\<close> registry) are dropped: every quantity is its magnitude.
\<close>

subsection \<open>Module globals\<close>

text \<open>
  Lines 31 to 33 bind three property objects of the materials database. Each is used
  through \<^verbatim>\<open>.value(temp).magnitude\<close>, a function of the temperature. This record holds
  the magnitudes that the lookups return; lookups that raise are modelled further down.
\<close>

record materials =
  flibe_diffusivity :: "real \<Rightarrow> real"
  flibe_solubility :: "real \<Rightarrow> real"
  flibe_permeability :: "real \<Rightarrow> real"

subsection \<open>External collaborators\<close>

text \<open>
  \<^verbatim>\<open>downstream_flux_salt(t, P_up, L, permeability, D)\<close> is imported from another
  module and \<^verbatim>\<open>curve_fit\<close> from scipy; both are parameters of the embedding.
  \<^verbatim>\<open>curve_fit(f, xdata, ydata, p0)\<close> either raises or returns the optimal parameters
  (its second result, the covariance, is never read by the caller).
\<close>

type_synonym flux_model = "real \<Rightarrow> real \<Rightarrow> real \<Rightarrow> real \<Rightarrow> real \<Rightarrow> real"

type_synonym 'e curve_fit =
  "(real \<Rightarrow> real \<Rightarrow> real \<Rightarrow> real) \<Rightarrow> real list \<Rightarrow> real list \<Rightarrow> real \<times> real \<Rightarrow> 'e + real \<times> real"

text \<open>
  An exception is either one raised inside an external call, passed on unchanged, or the
  \<^verbatim>\<open>KeyError\<close> of a dictionary subscript.
\<close>

datatype 'e error = Raised 'e | KeyError string

subsection \<open>Plotting state\<close>

text \<open>
  The calls made on \<^verbatim>\<open>matplotlib.pyplot\<close> so far, with their data and label
  (marker, line style and colour are not recorded).
\<close>

datatype plot_cmd =
  Plot "real list" "real list" "string option"
| Scatter "real list" "real list" "string option"
| Legend
| Show

type_synonym plot_state = "plot_cmd list"

subsection \<open>\<^verbatim>\<open>prop_errors\<close> (lines 36 to 76)\<close>

definition prop_errors ::
  "materials \<Rightarrow> 'e curve_fit \<Rightarrow> flux_model \<Rightarrow> real list \<Rightarrow> real list \<Rightarrow> real \<Rightarrow> real \<Rightarrow> real
    \<Rightarrow> bool \<Rightarrow> plot_state \<Rightarrow> ('e error + (string \<rightharpoonup> real)) \<times> plot_state" where
  "prop_errors env curve_fit downstream_flux_salt flux times' salt_thickness temp P_up plot st =
    (let guess = (flibe_solubility env temp * flibe_diffusivity env temp,
                  flibe_diffusivity env temp)
     in case curve_fit
               (\<lambda>t permeability D. downstream_flux_salt t P_up salt_thickness permeability D)
               times' (map abs flux) guess of
          Inl e \<Rightarrow> (Inl (Raised e), st)
        | Inr props \<Rightarrow>
           (let perm = flibe_diffusivity env temp * flibe_solubility env temp;
                sol = fst props / snd props;
                diff_error = (flibe_diffusivity env temp - snd props)
                               / flibe_diffusivity env temp * 100;
                sol_error = (flibe_solubility env temp - sol)
                               / flibe_solubility env temp * 100;
                perm_error = (perm - fst props) / perm * 100;
                st' = (if plot then
                         st @
                         [Plot times'
                            (map (\<lambda>t. downstream_flux_salt t P_up salt_thickness
                                         (fst props) (snd props)) times') None,
                          Scatter times' (map abs flux) (Some ''2D''),
                          Plot times'
                            (map (\<lambda>t. downstream_flux_salt t P_up salt_thickness
                                         (fst props) (snd props)) times')
                            (Some ''2D curve fit''),
                          Plot times'
                            (map (\<lambda>t. downstream_flux_salt t P_up salt_thickness
                                         (flibe_diffusivity env temp * flibe_solubility env temp)
                                         (flibe_diffusivity env temp)) times')
                            (Some ''1D''),
                          Legend, Show]
                       else st)
            in (Inr [''diffusivity error'' \<mapsto> diff_error,
                     ''solubility error'' \<mapsto> sol_error,
                     ''permeability error'' \<mapsto> perm_error],
                st')))"

subsection \<open>The call with lookups that may raise\<close>





subsection \<open>One grid point of the sweep (lines 211 to 213)\<close>

text \<open>
  \<^verbatim>\<open>errors[key].append(prop_errors(...)[key])\<close>: the list is looked up first, then the
  call is made (with \<^verbatim>\<open>plot\<close> false), then its result is subscripted.
\<close>

definition append_error ::
  "(string \<rightharpoonup> real list) \<Rightarrow> string \<Rightarrow> materials \<Rightarrow> 'e curve_fit \<Rightarrow> flux_model \<Rightarrow> real list
    \<Rightarrow> real list \<Rightarrow> real \<Rightarrow> real \<Rightarrow> real \<Rightarrow> plot_state
    \<Rightarrow> ('e error + (string \<rightharpoonup> real list)) \<times> plot_state" where
  "append_error errors key env curve_fit downstream_flux_salt flux times' thickness T_val P_up st =
    (case errors key of
       None \<Rightarrow> (Inl (KeyError key), st)
     | Some xs \<Rightarrow>
        (case prop_errors env curve_fit downstream_flux_salt flux times' thickness T_val P_up
                False st of
           (Inl e, st') \<Rightarrow> (Inl e, st')
         | (Inr r, st') \<Rightarrow>
            (case r key of
               None \<Rightarrow> (Inl (KeyError key), st')
             | Some v \<Rightarrow> (Inr (errors(key \<mapsto> xs @ [v])), st'))))"

definition sweep_point ::
  "(string \<rightharpoonup> real list) \<Rightarrow> materials \<Rightarrow> 'e curve_fit \<Rightarrow> flux_model \<Rightarrow> real list
    \<Rightarrow> real list \<Rightarrow> real \<Rightarrow> real \<Rightarrow> real \<Rightarrow> plot_state
    \<Rightarrow> ('e error + (string \<rightharpoonup> real list)) \<times> plot_state" where
  "sweep_point errors env curve_fit downstream_flux_salt flux times' thickness T_val P_up st =
    (case append_error errors ''diffusivity error'' env curve_fit downstream_flux_salt
            flux times' thickness T_val P_up st of
       (Inl e, st1) \<Rightarrow> (Inl e, st1)
     | (Inr errors1, st1) \<Rightarrow>
        (case append_error errors1 ''solubility error'' env curve_fit downstream_flux_salt
                flux times' thickness T_val P_up st1 of
           (Inl e, st2) \<Rightarrow> (Inl e, st2)
         | (Inr errors2, st2) \<Rightarrow>
             append_error errors2 ''permeability error'' env curve_fit downstream_flux_salt
               flux times' thickness T_val P_up st2))"

subsection \<open>The words of the specification\<close>


text \<open>
  The failures the specification names for the fit operation. The module defines no
  exception class of its own; these are the names a solver's exceptions are compared with.
\<close>

datatype fit_error = ConvergenceError | InsufficientDataError | InvalidInputError

text \<open>
  A returned dictionary carries a fit result when the fitted permeability, the fitted
  diffusivity and the derived solubility are among its values.
\<close>

definition carries_fit_result :: "(string \<rightharpoonup> real) \<Rightarrow> real \<times> real \<Rightarrow> bool" where
  "carries_fit_result rep props =
     (fst props \<in> ran rep \<and> snd props \<in> ran rep \<and> fst props / snd props \<in> ran rep)"

subsection \<open>Concrete collaborators for evaluation\<close>

text \<open>
  Stand-ins for the external parts, used only to evaluate the embedding at concrete
  inputs: constant correlations, the steady-state flux \<open>P_up * permeability / L\<close> as the
  model, and a solver that rejects fewer data points than parameters and otherwise
  answers with a fixed pair.
\<close>

definition const_materials :: "real \<Rightarrow> real \<Rightarrow> real \<Rightarrow> materials" where
  "const_materials d s p =
     \<lparr>flibe_diffusivity = (\<lambda>T. d), flibe_solubility = (\<lambda>T. s), flibe_permeability = (\<lambda>T. p)\<rparr>"

definition steady_flux :: flux_model where
  "steady_flux t P_up L permeability D = P_up * permeability / L"

definition fixed_solver :: "real \<times> real \<Rightarrow> fit_error curve_fit" where
  "fixed_solver popt f xdata ydata p0 =
     (if length ydata < 2 then Inl InsufficientDataError else Inr popt)"



section \<open>Properties\<close>

subsection \<open>The shape of a call\<close>

lemma prop_errors_raises:
  assumes "curve_fit (\<lambda>t permeability D. downstream_flux_salt t P_up L permeability D)
             times' (map abs flux)
             (flibe_solubility env T * flibe_diffusivity env T, flibe_diffusivity env T) = Inl e"
  shows "prop_errors env curve_fit downstream_flux_salt flux times' L T P_up plot st
           = (Inl (Raised e), st)"
  using assms by (simp add: prop_errors_def)

lemma prop_errors_returns:
  assumes "curve_fit (\<lambda>t permeability D. downstream_flux_salt t P_up L permeability D)
             times' (map abs flux)
             (flibe_solubility env T * flibe_diffusivity env T, flibe_diffusivity env T)
           = Inr (p, d)"
  shows "fst (prop_errors env curve_fit downstream_flux_salt flux times' L T P_up plot st)
           = Inr [''diffusivity error'' \<mapsto>
                    (flibe_diffusivity env T - d) / flibe_diffusivity env T * 100,
                  ''solubility error'' \<mapsto>
                    (flibe_solubility env T - p / d) / flibe_solubility env T * 100,
                  ''permeability error'' \<mapsto>
                    (flibe_diffusivity env T * flibe_solubility env T - p)
                      / (flibe_diffusivity env T * flibe_solubility env T) * 100]"
  using assms by (simp add: prop_errors_def Let_def)

lemma prop_errors_Inr_iff:
  "fst (prop_errors env curve_fit downstream_flux_salt flux times' L T P_up plot st) = Inr rep
   \<longleftrightarrow> (\<exists>p d. curve_fit (\<lambda>t permeability D. downstream_flux_salt t P_up L permeability D)
               times' (map abs flux)
               (flibe_solubility env T * flibe_diffusivity env T, flibe_diffusivity env T)
              = Inr (p, d)
          \<and> rep = [''diffusivity error'' \<mapsto>
                    (flibe_diffusivity env T - d) / flibe_diffusivity env T * 100,
                  ''solubility error'' \<mapsto>
                    (flibe_solubility env T - p / d) / flibe_solubility env T * 100,
                  ''permeability error'' \<mapsto>
                    (flibe_diffusivity env T * flibe_solubility env T - p)
                      / (flibe_diffusivity env T * flibe_solubility env T) * 100])"
proof (cases "curve_fit (\<lambda>t permeability D. downstream_flux_salt t P_up L permeability D)
               times' (map abs flux)
               (flibe_solubility env T * flibe_diffusivity env T, flibe_diffusivity env T)")
  case (Inl e)
  then show ?thesis by (simp add: prop_errors_raises)
next
  case (Inr props)
  obtain p d where pd: "props = (p, d)" by (cases props)
  from Inr pd show ?thesis
    using prop_errors_returns [of curve_fit downstream_flux_salt P_up L times' flux env T p d plot st]
    by auto
qed

subsection \<open>Calls without plotting, and the sweep step\<close>

lemma prop_errors_no_plot:
  "snd (prop_errors env curve_fit downstream_flux_salt flux times' L T P_up False st) = st"
  by (simp add: prop_errors_def Let_def split: sum.splits)

lemma prop_errors_result_any_state:
  "fst (prop_errors env curve_fit downstream_flux_salt flux times' L T P_up plot st1)
     = fst (prop_errors env curve_fit downstream_flux_salt flux times' L T P_up plot' st2)"
  by (simp add: prop_errors_def Let_def split: sum.splits)

lemma prop_errors_False_eq:
  "prop_errors env curve_fit downstream_flux_salt flux times' L T P_up False st
     = (fst (prop_errors env curve_fit downstream_flux_salt flux times' L T P_up False st), st)"
  using prop_errors_no_plot [of env curve_fit downstream_flux_salt flux times' L T P_up st]
  by (metis prod.collapse)

lemma append_error_appends:
  assumes "errors key = Some xs"
    and "fst (prop_errors env curve_fit downstream_flux_salt flux times' L T P_up False st)
           = Inr r"
    and "r key = Some v"
  shows "append_error errors key env curve_fit downstream_flux_salt flux times' L T P_up st
           = (Inr (errors(key \<mapsto> xs @ [v])), st)"
proof -
  have "prop_errors env curve_fit downstream_flux_salt flux times' L T P_up False st
          = (Inr r, st)"
    using prop_errors_False_eq [of env curve_fit downstream_flux_salt flux times' L T P_up st]
      assms(2) by simp
  with assms(1,3) show ?thesis by (simp add: append_error_def)
qed

lemma append_error_raises:
  assumes "errors key = Some xs"
    and "fst (prop_errors env curve_fit downstream_flux_salt flux times' L T P_up False st)
           = Inl e"
  shows "append_error errors key env curve_fit downstream_flux_salt flux times' L T P_up st
           = (Inl e, st)"
proof -
  have "prop_errors env curve_fit downstream_flux_salt flux times' L T P_up False st
          = (Inl e, st)"
    using prop_errors_False_eq [of env curve_fit downstream_flux_salt flux times' L T P_up st]
      assms(2) by simp
  with assms(1) show ?thesis by (simp add: append_error_def)
qed

lemma sweep_point_raises:
  assumes "errors ''diffusivity error'' = Some ds"
    and "fst (prop_errors env curve_fit downstream_flux_salt flux times' L T P_up False st)
           = Inl e"
  shows "sweep_point errors env curve_fit downstream_flux_salt flux times' L T P_up st
           = (Inl e, st)"
  using assms append_error_raises [where errors = errors and key = "''diffusivity error''"
      and xs = ds and e = e and st = st and env = env and curve_fit = curve_fit
      and downstream_flux_salt = downstream_flux_salt and flux = flux and times' = times'
      and L = L and T = T and P_up = P_up]
  by (simp add: sweep_point_def)

lemma sweep_point_appends:
  assumes "errors ''diffusivity error'' = Some ds"
    and "errors ''solubility error'' = Some ss"
    and "errors ''permeability error'' = Some ps"
    and ret: "fst (prop_errors env curve_fit downstream_flux_salt flux times' L T P_up False st)
           = Inr r"
    and "r ''diffusivity error'' = Some e1"
    and "r ''solubility error'' = Some e2"
    and "r ''permeability error'' = Some e3"
  shows "sweep_point errors env curve_fit downstream_flux_salt flux times' L T P_up st
           = (Inr (errors(''diffusivity error'' \<mapsto> ds @ [e1],
                          ''solubility error'' \<mapsto> ss @ [e2],
                          ''permeability error'' \<mapsto> ps @ [e3])), st)"
proof -
  let ?errors1 = "errors(''diffusivity error'' \<mapsto> ds @ [e1])"
  let ?errors2 = "?errors1(''solubility error'' \<mapsto> ss @ [e2])"
  have s1: "append_error errors ''diffusivity error'' env curve_fit downstream_flux_salt
              flux times' L T P_up st = (Inr ?errors1, st)"
    using assms(1) ret assms(5)
    by (simp add: append_error_appends [where errors = errors and xs = ds and r = r])
  have "?errors1 ''solubility error'' = Some ss"
    using assms(2) by simp
  then have s2: "append_error ?errors1 ''solubility error'' env curve_fit downstream_flux_salt
              flux times' L T P_up st = (Inr ?errors2, st)"
    using ret assms(6)
    by (simp add: append_error_appends [where errors = ?errors1 and xs = ss and r = r])
  have "?errors2 ''permeability error'' = Some ps"
    using assms(3) by simp
  then have s3: "append_error ?errors2 ''permeability error'' env curve_fit
              downstream_flux_salt flux times' L T P_up st
            = (Inr (?errors2(''permeability error'' \<mapsto> ps @ [e3])), st)"
    using ret assms(7)
    by (simp add: append_error_appends [where errors = ?errors2 and xs = ps and r = r])
  show ?thesis
    unfolding sweep_point_def s1 by (simp add: s2 s3)
qed

subsection \<open>The three errors\<close>



subsection \<open>What the caller receives\<close>

text \<open>
  C2 (as amended): whenever \<^verbatim>\<open>prop_errors\<close> returns, it returns the error report alone:
  a dictionary whose keys are exactly \<^verbatim>\<open>diffusivity error\<close>, \<^verbatim>\<open>solubility error\<close>
  and \<^verbatim>\<open>permeability error\<close>. The fitted pair and the derived solubility are local
  to the call.
\<close>

theorem report_has_only_error_keys:
  assumes "fst (prop_errors env curve_fit downstream_flux_salt flux times' L T P_up plot st)
             = Inr rep"
  shows "dom rep = {''diffusivity error'', ''solubility error'', ''permeability error''}"
proof -
  from assms obtain p d where
    "rep = [''diffusivity error'' \<mapsto>
                    (flibe_diffusivity env T - d) / flibe_diffusivity env T * 100,
                  ''solubility error'' \<mapsto>
                    (flibe_solubility env T - p / d) / flibe_solubility env T * 100,
                  ''permeability error'' \<mapsto>
                    (flibe_diffusivity env T * flibe_solubility env T - p)
                      / (flibe_diffusivity env T * flibe_solubility env T) * 100]"
    unfolding prop_errors_Inr_iff by blast
  then show ?thesis by auto
qed

theorem report_has_only_error_keys_witness:
  "fst (prop_errors (const_materials 2 4 0) (fixed_solver (6, 2)) steady_flux
          [1, -2] [0, 1] 1 800 1000 True [])
     = Inr [''diffusivity error'' \<mapsto> 0, ''solubility error'' \<mapsto> 25,
            ''permeability error'' \<mapsto> 25]
   \<and> dom [''diffusivity error'' \<mapsto> 0::real, ''solubility error'' \<mapsto> 25,
           ''permeability error'' \<mapsto> 25]
       = {''diffusivity error'', ''solubility error'', ''permeability error''}"
proof -
  have call: "fst (prop_errors (const_materials 2 4 0) (fixed_solver (6, 2)) steady_flux
          [1, -2] [0, 1] 1 800 1000 True [])
     = Inr [''diffusivity error'' \<mapsto> 0, ''solubility error'' \<mapsto> 25,
            ''permeability error'' \<mapsto> 25]"
    by (simp add: prop_errors_def const_materials_def fixed_solver_def Let_def)
  from report_has_only_error_keys [OF call] call show ?thesis by simp
qed

text \<open>
  C2 as stated fails: with reference diffusivity 2 and solubility 4 and a fit that yields
  permeability 4 and diffusivity 1 (derived solubility 4), the returned dictionary holds the
  errors 50, 0 and 50 and none of the fitted coefficients.
\<close>

theorem fit_result_not_returned_counterexample:
  "fst (prop_errors (const_materials 2 4 0) (fixed_solver (4, 1)) steady_flux
          [1, -2] [0, 1] 1 800 1000 False [])
     = Inr [''diffusivity error'' \<mapsto> 50, ''solubility error'' \<mapsto> 0,
            ''permeability error'' \<mapsto> 50]
   \<and> \<not> carries_fit_result
         [''diffusivity error'' \<mapsto> 50, ''solubility error'' \<mapsto> 0,
          ''permeability error'' \<mapsto> 50] (4, 1)"
  by (simp add: prop_errors_def const_materials_def fixed_solver_def Let_def
      carries_fit_result_def ran_def)

subsection \<open>Failures\<close>







text \<open>
  C4 (as amended): an all-zero flux series is treated like any other. It reaches
  \<^verbatim>\<open>curve_fit\<close> unchanged, a raised exception is passed on, and a returned pair is turned
  into the report by the usual three formulas.
\<close>

theorem prop_errors_zero_flux:
  "fst (prop_errors env curve_fit downstream_flux_salt (replicate n 0) times' L T P_up plot st)
     = (case curve_fit (\<lambda>t permeability D. downstream_flux_salt t P_up L permeability D)
               times' (replicate n 0)
               (flibe_solubility env T * flibe_diffusivity env T, flibe_diffusivity env T) of
          Inl e \<Rightarrow> Inl (Raised e)
        | Inr props \<Rightarrow>
            Inr [''diffusivity error'' \<mapsto>
                    (flibe_diffusivity env T - snd props) / flibe_diffusivity env T * 100,
                  ''solubility error'' \<mapsto>
                    (flibe_solubility env T - fst props / snd props)
                      / flibe_solubility env T * 100,
                  ''permeability error'' \<mapsto>
                    (flibe_diffusivity env T * flibe_solubility env T - fst props)
                      / (flibe_diffusivity env T * flibe_solubility env T) * 100])"
  by (simp add: prop_errors_def Let_def split: sum.splits)

text \<open>
  C4 as stated fails: for three zero fluxes and a solver that answers with permeability 0
  and the seed diffusivity, a report (errors 0, 100 and 100) is returned and no exception
  is raised.
\<close>

theorem zero_series_yields_report_counterexample:
  "fst (prop_errors (const_materials 2 4 0) (fixed_solver (0, 2)) steady_flux
          [0, 0, 0] [0, 1, 2] 1 800 1000 False [])
     = Inr [''diffusivity error'' \<mapsto> 0, ''solubility error'' \<mapsto> 100,
            ''permeability error'' \<mapsto> 100]
   \<and> fst (prop_errors (const_materials 2 4 0) (fixed_solver (0, 2)) steady_flux
          [0, 0, 0] [0, 1, 2] 1 800 1000 False [])
     \<noteq> Inl (Raised ConvergenceError)
   \<and> fst (prop_errors (const_materials 2 4 0) (fixed_solver (0, 2)) steady_flux
          [0, 0, 0] [0, 1, 2] 1 800 1000 False [])
     \<noteq> Inl (Raised InvalidInputError)"
  by (simp add: prop_errors_def const_materials_def fixed_solver_def Let_def)

subsection \<open>What the solver is given\<close>

text \<open>
  C6: the seed handed to \<^verbatim>\<open>curve_fit\<close> is the pair (reference diffusivity *
  reference solubility, reference diffusivity) at the temperature, permeability first, for
  every temperature. A solver that raises its seed shows it, and replacing the seed by
  that pair in any solver changes nothing.
\<close>

theorem prop_errors_initial_guess:
  "fst (prop_errors env (\<lambda>f xdata ydata p0. Inl p0) downstream_flux_salt flux times'
          L T P_up plot st)
     = Inl (Raised (flibe_diffusivity env T * flibe_solubility env T, flibe_diffusivity env T))
   \<and> prop_errors env curve_fit downstream_flux_salt flux times' L T P_up plot st
     = prop_errors env
         (\<lambda>f xdata ydata p0. curve_fit f xdata ydata
             (flibe_diffusivity env T * flibe_solubility env T, flibe_diffusivity env T))
         downstream_flux_salt flux times' L T P_up plot st"
  by (simp add: prop_errors_def Let_def mult.commute)

text \<open>
  C7: when the fit yields the pair (p, d), the call returns, and the solubility error is
  computed from the quotient p / d, the derived solubility; the solver has two
  parameters only, so the solubility is never fitted.
\<close>

theorem prop_errors_derived_solubility:
  assumes "curve_fit (\<lambda>t permeability D. downstream_flux_salt t P_up L permeability D)
             times' (map abs flux)
             (flibe_solubility env T * flibe_diffusivity env T, flibe_diffusivity env T)
           = Inr (p, d)"
  shows "\<exists>rep. fst (prop_errors env curve_fit downstream_flux_salt flux times' L T P_up plot st)
                 = Inr rep
           \<and> rep ''solubility error''
               = Some ((flibe_solubility env T - p / d) / flibe_solubility env T * 100)"
  using assms by (simp add: prop_errors_def Let_def)

theorem prop_errors_derived_solubility_witness:
  "fixed_solver (6, 2) (\<lambda>t permeability D. steady_flux t 1000 1 permeability D)
       [0, 1] (map abs [1, -2]) (4 * 2, 2) = Inr (6, 2)
   \<and> (\<exists>rep. fst (prop_errors (const_materials 2 4 0) (fixed_solver (6, 2)) steady_flux
                    [1, -2] [0, 1] 1 800 1000 False []) = Inr rep
           \<and> rep ''solubility error'' = Some 25)"
  using prop_errors_derived_solubility
    [where env = "const_materials 2 4 0" and curve_fit = "fixed_solver (6, 2)"
       and downstream_flux_salt = steady_flux and flux = "[1, -2]" and times' = "[0, 1]"
       and L = 1 and T = 800 and P_up = 1000 and plot = False and st = "[]"
       and p = 6 and d = 2]
  by (simp add: fixed_solver_def const_materials_def)

text \<open>
  C8: \<^verbatim>\<open>curve_fit\<close> is given the model with pressure and thickness closed over, the
  times, and the elementwise absolute value of the flux; so the call (result and plots)
  is the same for a flux series, its negation and its absolute value.
\<close>

theorem prop_errors_sign_invariant:
  "fst (prop_errors env (\<lambda>f xdata ydata p0. Inl (f, xdata, ydata)) downstream_flux_salt
          flux times' L T P_up plot st)
     = Inl (Raised (\<lambda>t permeability D. downstream_flux_salt t P_up L permeability D,
                    times', map abs flux))
   \<and> prop_errors env curve_fit downstream_flux_salt (map uminus flux) times' L T P_up plot st
     = prop_errors env curve_fit downstream_flux_salt flux times' L T P_up plot st
   \<and> prop_errors env curve_fit downstream_flux_salt (map abs flux) times' L T P_up plot st
     = prop_errors env curve_fit downstream_flux_salt flux times' L T P_up plot st"
  by (simp add: prop_errors_def Let_def comp_def split: sum.splits)

subsection \<open>Independence from unused state\<close>

text \<open>
  C9: the global \<^verbatim>\<open>flibe_permeability\<close> is not read: changing it changes no call, and
  the permeability error is taken against reference diffusivity * reference solubility.
\<close>

theorem prop_errors_ignores_flibe_permeability:
  "prop_errors (env\<lparr>flibe_permeability := q\<rparr>) curve_fit downstream_flux_salt flux times'
       L T P_up plot st
     = prop_errors env curve_fit downstream_flux_salt flux times' L T P_up plot st
   \<and> (curve_fit (\<lambda>t permeability D. downstream_flux_salt t P_up L permeability D)
             times' (map abs flux)
             (flibe_solubility env T * flibe_diffusivity env T, flibe_diffusivity env T)
           = Inr (p, d)
      \<longrightarrow> (\<exists>rep. fst (prop_errors (env\<lparr>flibe_permeability := q\<rparr>) curve_fit
                        downstream_flux_salt flux times' L T P_up plot st) = Inr rep
            \<and> rep ''permeability error''
                = Some ((flibe_diffusivity env T * flibe_solubility env T - p)
                         / (flibe_diffusivity env T * flibe_solubility env T) * 100)))"
proof -
  have same: "prop_errors (env\<lparr>flibe_permeability := q\<rparr>) curve_fit downstream_flux_salt flux
                 times' L T P_up plot st
     = prop_errors env curve_fit downstream_flux_salt flux times' L T P_up plot st"
    by (simp add: prop_errors_def Let_def split: sum.splits)
  show ?thesis
  proof (intro conjI impI)
    show "prop_errors (env\<lparr>flibe_permeability := q\<rparr>) curve_fit downstream_flux_salt flux
                 times' L T P_up plot st
     = prop_errors env curve_fit downstream_flux_salt flux times' L T P_up plot st"
      by (rule same)
  next
    assume fit: "curve_fit (\<lambda>t permeability D. downstream_flux_salt t P_up L permeability D)
             times' (map abs flux)
             (flibe_solubility env T * flibe_diffusivity env T, flibe_diffusivity env T)
           = Inr (p, d)"
    show "\<exists>rep. fst (prop_errors (env\<lparr>flibe_permeability := q\<rparr>) curve_fit
                        downstream_flux_salt flux times' L T P_up plot st) = Inr rep
            \<and> rep ''permeability error''
                = Some ((flibe_diffusivity env T * flibe_solubility env T - p)
                         / (flibe_diffusivity env T * flibe_solubility env T) * 100)"
      using fit by (simp add: prop_errors_def Let_def)
  qed
qed

theorem prop_errors_ignores_flibe_permeability_witness:
  "prop_errors ((const_materials 2 4 0)\<lparr>flibe_permeability := (\<lambda>T. 99)\<rparr>)
       (fixed_solver (6, 2)) steady_flux [1, -2] [0, 1] 1 800 1000 False []
     = prop_errors (const_materials 2 4 0)
         (fixed_solver (6, 2)) steady_flux [1, -2] [0, 1] 1 800 1000 False []
   \<and> fixed_solver (6, 2) (\<lambda>t permeability D. steady_flux t 1000 1 permeability D)
       [0, 1] (map abs [1, -2]) (4 * 2, 2) = Inr (6, 2)
   \<and> (\<exists>rep. fst (prop_errors ((const_materials 2 4 0)\<lparr>flibe_permeability := (\<lambda>T. 99)\<rparr>)
                    (fixed_solver (6, 2)) steady_flux [1, -2] [0, 1] 1 800 1000 False [])
               = Inr rep
           \<and> rep ''permeability error'' = Some 25)"
  using prop_errors_ignores_flibe_permeability
    [where env = "const_materials 2 4 0" and curve_fit = "fixed_solver (6, 2)"
       and downstream_flux_salt = steady_flux and flux = "[1, -2]" and times' = "[0, 1]"
       and L = 1 and T = 800 and P_up = 1000 and plot = False and st = "[]"
       and p = 6 and d = 2 and q = "\<lambda>T. 99"]
  by (simp add: fixed_solver_def const_materials_def prop_errors_def Let_def)

text \<open>
  C10: with \<^verbatim>\<open>plot\<close> false the result does not depend on the plotting state and the
  plotting state is left as it was. A grid point of the sweep, three such calls, appends
  to the three lists the three entries of one call's dictionary, or fails as that call
  fails.
\<close>

theorem prop_errors_deterministic_without_plot:
  assumes "errors ''diffusivity error'' = Some ds"
    and "errors ''solubility error'' = Some ss"
    and "errors ''permeability error'' = Some ps"
  shows "fst (prop_errors env curve_fit downstream_flux_salt flux times' L T P_up False st1)
           = fst (prop_errors env curve_fit downstream_flux_salt flux times' L T P_up False st2)
       \<and> snd (prop_errors env curve_fit downstream_flux_salt flux times' L T P_up False st) = st
       \<and> (fst (prop_errors env curve_fit downstream_flux_salt flux times' L T P_up False st)
            = Inl e
          \<longrightarrow> sweep_point errors env curve_fit downstream_flux_salt flux times' L T P_up st
                = (Inl e, st))
       \<and> (fst (prop_errors env curve_fit downstream_flux_salt flux times' L T P_up False st)
            = Inr r
          \<longrightarrow> (\<exists>e1 e2 e3.
                 r ''diffusivity error'' = Some e1 \<and> r ''solubility error'' = Some e2
               \<and> r ''permeability error'' = Some e3
               \<and> sweep_point errors env curve_fit downstream_flux_salt flux times' L T P_up st
                   = (Inr (errors(''diffusivity error'' \<mapsto> ds @ [e1],
                                  ''solubility error'' \<mapsto> ss @ [e2],
                                  ''permeability error'' \<mapsto> ps @ [e3])), st)))"
proof (intro conjI impI)
  show "fst (prop_errors env curve_fit downstream_flux_salt flux times' L T P_up False st1)
           = fst (prop_errors env curve_fit downstream_flux_salt flux times' L T P_up False st2)"
    by (rule prop_errors_result_any_state)
next
  show "snd (prop_errors env curve_fit downstream_flux_salt flux times' L T P_up False st) = st"
    by (rule prop_errors_no_plot)
next
  assume "fst (prop_errors env curve_fit downstream_flux_salt flux times' L T P_up False st)
            = Inl e"
  with assms(1) show "sweep_point errors env curve_fit downstream_flux_salt flux times'
                        L T P_up st = (Inl e, st)"
    by (simp add: sweep_point_raises [where errors = errors and ds = ds])
next
  assume ret: "fst (prop_errors env curve_fit downstream_flux_salt flux times' L T P_up
                      False st) = Inr r"
  then obtain p d where
    rep: "r = [''diffusivity error'' \<mapsto>
                    (flibe_diffusivity env T - d) / flibe_diffusivity env T * 100,
                  ''solubility error'' \<mapsto>
                    (flibe_solubility env T - p / d) / flibe_solubility env T * 100,
                  ''permeability error'' \<mapsto>
                    (flibe_diffusivity env T * flibe_solubility env T - p)
                      / (flibe_diffusivity env T * flibe_solubility env T) * 100]"
    unfolding prop_errors_Inr_iff by blast
  then obtain e1 e2 e3 where
    keys: "r ''diffusivity error'' = Some e1" "r ''solubility error'' = Some e2"
      "r ''permeability error'' = Some e3"
    by simp
  have "sweep_point errors env curve_fit downstream_flux_salt flux times' L T P_up st
            = (Inr (errors(''diffusivity error'' \<mapsto> ds @ [e1],
                           ''solubility error'' \<mapsto> ss @ [e2],
                           ''permeability error'' \<mapsto> ps @ [e3])), st)"
    using assms ret keys
    by (simp add: sweep_point_appends [where errors = errors and r = r])
  with keys
  show "\<exists>e1 e2 e3.
          r ''diffusivity error'' = Some e1 \<and> r ''solubility error'' = Some e2
        \<and> r ''permeability error'' = Some e3
        \<and> sweep_point errors env curve_fit downstream_flux_salt flux times' L T P_up st
            = (Inr (errors(''diffusivity error'' \<mapsto> ds @ [e1],
                           ''solubility error'' \<mapsto> ss @ [e2],
                           ''permeability error'' \<mapsto> ps @ [e3])), st)"
    by blast
qed

theorem prop_errors_deterministic_without_plot_witness:
  "[''temperatures'' \<mapsto> [800], ''thickness'' \<mapsto> [1], ''diffusivity error'' \<mapsto> [],
    ''solubility error'' \<mapsto> [], ''permeability error'' \<mapsto> [7::real]] ''diffusivity error''
     = Some []
   \<and> fst (prop_errors (const_materials 2 4 0) (fixed_solver (6, 2)) steady_flux
            [1, -2] [0, 1] 1 800 1000 False [])
       = Inr [''diffusivity error'' \<mapsto> 0, ''solubility error'' \<mapsto> 25,
              ''permeability error'' \<mapsto> 25]
   \<and> sweep_point
         [''temperatures'' \<mapsto> [800], ''thickness'' \<mapsto> [1], ''diffusivity error'' \<mapsto> [],
          ''solubility error'' \<mapsto> [], ''permeability error'' \<mapsto> [7]]
         (const_materials 2 4 0) (fixed_solver (6, 2)) steady_flux [1, -2] [0, 1] 1 800 1000 []
       = (Inr [''temperatures'' \<mapsto> [800], ''thickness'' \<mapsto> [1],
               ''diffusivity error'' \<mapsto> [0], ''solubility error'' \<mapsto> [25],
               ''permeability error'' \<mapsto> [7, 25]], [])
   \<and> fst (prop_errors (const_materials 2 4 0) (fixed_solver (6, 2)) steady_flux
            [1] [0] 1 800 1000 False [])
       = Inl (Raised InsufficientDataError)
   \<and> sweep_point
         [''temperatures'' \<mapsto> [800], ''thickness'' \<mapsto> [1], ''diffusivity error'' \<mapsto> [],
          ''solubility error'' \<mapsto> [], ''permeability error'' \<mapsto> [7]]
         (const_materials 2 4 0) (fixed_solver (6, 2)) steady_flux [1] [0] 1 800 1000 []
       = (Inl (Raised InsufficientDataError), [])"
proof -
  let ?errors = "[''temperatures'' \<mapsto> [800], ''thickness'' \<mapsto> [1],
                  ''diffusivity error'' \<mapsto> [], ''solubility error'' \<mapsto> [],
                  ''permeability error'' \<mapsto> [7::real]]"
  let ?r = "[''diffusivity error'' \<mapsto> 0::real, ''solubility error'' \<mapsto> 25,
             ''permeability error'' \<mapsto> 25]"
  have k1: "?errors ''diffusivity error'' = Some []"
    and k2: "?errors ''solubility error'' = Some []"
    and k3: "?errors ''permeability error'' = Some [7]"
    by simp_all
  have ok: "fst (prop_errors (const_materials 2 4 0) (fixed_solver (6, 2)) steady_flux
            [1, -2] [0, 1] 1 800 1000 False []) = Inr ?r"
    by (simp add: prop_errors_def const_materials_def fixed_solver_def Let_def)
  have bad: "fst (prop_errors (const_materials 2 4 0) (fixed_solver (6, 2)) steady_flux
            [1] [0] 1 800 1000 False []) = Inl (Raised InsufficientDataError)"
    by (simp add: prop_errors_def const_materials_def fixed_solver_def Let_def)
  from prop_errors_deterministic_without_plot [OF k1 k2 k3, where env = "const_materials 2 4 0"
        and curve_fit = "fixed_solver (6, 2)" and downstream_flux_salt = steady_flux
        and flux = "[1, -2]" and times' = "[0, 1]" and L = 1 and T = 800 and P_up = 1000
        and st = "[]" and r = ?r] ok
  obtain e1 e2 e3 where
    e1: "?r ''diffusivity error'' = Some e1" and e2: "?r ''solubility error'' = Some e2"
    and e3: "?r ''permeability error'' = Some e3"
    and sw: "sweep_point ?errors (const_materials 2 4 0) (fixed_solver (6, 2)) steady_flux
          [1, -2] [0, 1] 1 800 1000 []
        = (Inr (?errors(''diffusivity error'' \<mapsto> [] @ [e1],
                        ''solubility error'' \<mapsto> [] @ [e2],
                        ''permeability error'' \<mapsto> [7] @ [e3])), [])"
    by blast
  from e1 e2 e3 have "e1 = 0" and "e2 = 25" and "e3 = 25" by simp_all
  moreover have "?errors(''diffusivity error'' \<mapsto> [0], ''solubility error'' \<mapsto> [25],
                         ''permeability error'' \<mapsto> [7, 25])
                 = [''temperatures'' \<mapsto> [800], ''thickness'' \<mapsto> [1],
                    ''diffusivity error'' \<mapsto> [0], ''solubility error'' \<mapsto> [25],
                    ''permeability error'' \<mapsto> [7, 25]]"
    by (rule ext) simp
  ultimately have good_sweep: "sweep_point ?errors (const_materials 2 4 0)
          (fixed_solver (6, 2)) steady_flux [1, -2] [0, 1] 1 800 1000 []
       = (Inr [''temperatures'' \<mapsto> [800], ''thickness'' \<mapsto> [1],
               ''diffusivity error'' \<mapsto> [0], ''solubility error'' \<mapsto> [25],
               ''permeability error'' \<mapsto> [7, 25]], [])"
    using sw by simp
  have bad_sweep: "sweep_point ?errors (const_materials 2 4 0) (fixed_solver (6, 2))
          steady_flux [1] [0] 1 800 1000 [] = (Inl (Raised InsufficientDataError), [])"
    using prop_errors_deterministic_without_plot [OF k1 k2 k3, where env = "const_materials 2 4 0"
        and curve_fit = "fixed_solver (6, 2)" and downstream_flux_salt = steady_flux
        and flux = "[1]" and times' = "[0]" and L = 1 and T = 800 and P_up = 1000
        and st = "[]" and e = "Raised InsufficientDataError"] bad
    by blast
  from k1 ok good_sweep bad bad_sweep show ?thesis by blast
qed

end
